theory Spec2Isabelle
  imports Main
begin

section \<open>django-notifications: a shallow embedding\<close>

text \<open>
  The development follows \<^verbatim>\<open>notifications/utils.py\<close>,
  \<^verbatim>\<open>notifications/base/models.py\<close> and \<^verbatim>\<open>notifications/views.py\<close>.
  Python exceptions are values of the type \<open>error\<close>; the database table of
  notifications is an explicit state that every writing operation returns updated, also
  when it raises (an exception does not undo the rows written before it).
\<close>

subsection \<open>Settings, exceptions and Python values\<close>

text \<open>
  \<^verbatim>\<open>notifications_settings.get_config()\<close>: the process-wide settings dictionary. The
  settings module is not part of the modelled files; the three keys that the code reads are
  the fields of this record.
\<close>

record config =
  SOFT_DELETE :: bool
  USE_JSONFIELD :: bool
  PAGINATE_BY :: nat

text \<open>The exceptions that the modelled code raises, each with its message or the name it is about.\<close>

datatype error =
    ImproperlyConfigured string
  | FieldError string
  | AttributeError string
  | KeyError string
  | ValidationError string
  | ValueError string
  | Http404
  | MultipleObjectsReturned

text \<open>
  A model instance of the host application as far as the handler looks at it: its primary
  key (\<^verbatim>\<open>obj.pk\<close>, \<^verbatim>\<open>obj.id\<close>), the content type of its own class and the content
  type of its concrete model. The two content types differ exactly for instances of proxy
  models.
\<close>

record model_obj =
  pk :: int
  own_content_type :: nat
  concrete_content_type :: nat

text \<open>
  The Python values that reach the code: \<open>PGroup g members\<close> is a
  \<^verbatim>\<open>django.contrib.auth.models.Group\<close> with its \<^verbatim>\<open>user_set\<close>, \<open>PQuerySet\<close> a queryset
  of model instances, \<open>PList\<close> a Python list.
\<close>

datatype pyval =
    PNone
  | PBool bool
  | PInt int
  | PStr string
  | PObj model_obj
  | PGroup model_obj "model_obj list"
  | PQuerySet "model_obj list"
  | PList "pyval list"

text \<open>\<^verbatim>\<open>bool(v)\<close>: Python truthiness. Model instances and querysets of them follow the
  default rules (an object is true, a container is true when it is not empty).\<close>

fun py_bool :: "pyval \<Rightarrow> bool" where
  "py_bool PNone = False"
| "py_bool (PBool b) = b"
| "py_bool (PInt i) = (i \<noteq> 0)"
| "py_bool (PStr s) = (s \<noteq> [])"
| "py_bool (PObj obj) = True"
| "py_bool (PGroup g members) = True"
| "py_bool (PQuerySet objs) = (objs \<noteq> [])"
| "py_bool (PList vs) = (vs \<noteq> [])"

subsection \<open>\<^verbatim>\<open>notifications/utils.py\<close>\<close>

text \<open>
  \<^verbatim>\<open>def slug2id(slug): return int(slug) - 110909\<close> and
  \<^verbatim>\<open>def id2slug(notification_id): return notification_id + 110909\<close>.
  Both are annotated \<^verbatim>\<open>int -> int\<close>; Python integers are unbounded, and
  \<^verbatim>\<open>int(slug)\<close> is \<^verbatim>\<open>slug\<close> for an integer.
\<close>

definition slug2id :: "int \<Rightarrow> int" where
  "slug2id slug = slug - 110909"

definition id2slug :: "int \<Rightarrow> int" where
  "id2slug notification_id = notification_id + 110909"

subsection \<open>The notification model and the stored table\<close>

text \<open>
  \<^verbatim>\<open>class AbstractNotification(models.Model)\<close>: one field of the record for each column.
  \<open>nid\<close> is the column \<^verbatim>\<open>id\<close> (\<open>None\<close> on an instance that was never saved). The fields
  that the handler fills from the caller's keyword arguments without converting them
  (\<^verbatim>\<open>level\<close>, \<^verbatim>\<open>description\<close>, \<^verbatim>\<open>timestamp\<close>) hold the Python value as it was passed.
  A content type is the number of its row, an object id is the primary key that was
  assigned to it.
\<close>

record notification =
  nid :: "int option"
  level :: pyval
  recipient :: int
  unread :: bool
  actor_content_type :: nat
  actor_object_id :: int
  verb :: string
  description :: pyval
  target_content_type :: "nat option"
  target_object_id :: "int option"
  action_object_content_type :: "nat option"
  action_object_object_id :: "int option"
  timestamp :: pyval
  public :: bool
  deleted :: bool
  emailed :: bool
  data :: "(string \<times> pyval) list option"

text \<open>
  The database: the rows of the notification table in the order of their insertion, the
  next value of the automatic primary key, and the number of writing calls
  (\<^verbatim>\<open>save\<close>, \<^verbatim>\<open>delete\<close>, \<^verbatim>\<open>update\<close>) that reached it so far. The default ordering
  of the model (\<^verbatim>\<open>-timestamp\<close>) is not modelled: a queryset is read as the list of its
  rows in table order.
\<close>

record database =
  table :: "notification list"
  next_id :: int
  writes :: nat

text \<open>
  A queryset is lazy: it is the condition of its \<^verbatim>\<open>WHERE\<close> clause, evaluated against the
  table when the rows are read or updated. \<open>objects\<close> is \<^verbatim>\<open>Notification.objects\<close>.
\<close>

type_synonym queryset = "notification \<Rightarrow> bool"

definition objects :: queryset where
  "objects = (\<lambda>r. True)"

definition rows :: "queryset \<Rightarrow> database \<Rightarrow> notification list" where
  "rows qs db = filter qs (table db)"

definition count :: "queryset \<Rightarrow> database \<Rightarrow> int" where
  "count qs db = int (length (rows qs db))"

text \<open>
  The names that a keyword lookup of \<^verbatim>\<open>filter\<close> resolves, with the value that the row is
  compared to: the columns declared by \<^verbatim>\<open>AbstractNotification\<close>, and \<^verbatim>\<open>pk\<close>. Any other
  keyword makes Django raise \<^verbatim>\<open>FieldError\<close> (cannot resolve keyword into field).
\<close>

definition opt_val :: "('a \<Rightarrow> pyval) \<Rightarrow> 'a option \<Rightarrow> pyval" where
  "opt_val f x = (case x of None \<Rightarrow> PNone | Some y \<Rightarrow> f y)"

definition notification_fields :: "(string \<times> (notification \<Rightarrow> pyval)) list" where
  "notification_fields =
    [(''id'', \<lambda>r. opt_val PInt (nid r)),
     (''pk'', \<lambda>r. opt_val PInt (nid r)),
     (''level'', level),
     (''recipient'', \<lambda>r. PInt (recipient r)),
     (''unread'', \<lambda>r. PBool (unread r)),
     (''actor_content_type'', \<lambda>r. PInt (int (actor_content_type r))),
     (''actor_object_id'', \<lambda>r. PInt (actor_object_id r)),
     (''verb'', \<lambda>r. PStr (verb r)),
     (''description'', description),
     (''target_content_type'', \<lambda>r. opt_val (\<lambda>c. PInt (int c)) (target_content_type r)),
     (''target_object_id'', \<lambda>r. opt_val PInt (target_object_id r)),
     (''action_object_content_type'',
        \<lambda>r. opt_val (\<lambda>c. PInt (int c)) (action_object_content_type r)),
     (''action_object_object_id'', \<lambda>r. opt_val PInt (action_object_object_id r)),
     (''timestamp'', timestamp),
     (''public'', \<lambda>r. PBool (public r)),
     (''deleted'', \<lambda>r. PBool (deleted r)),
     (''emailed'', \<lambda>r. PBool (emailed r))]"

text \<open>\<^verbatim>\<open>QuerySet.filter(**kwargs)\<close>: the rows of the queryset that agree with every keyword.\<close>

fun filter_qs :: "(string \<times> pyval) list \<Rightarrow> queryset \<Rightarrow> error + queryset" where
  "filter_qs [] qs = Inr qs"
| "filter_qs ((k, v) # kws) qs =
     (case map_of notification_fields k of
        None \<Rightarrow> Inl (FieldError k)
      | Some field \<Rightarrow> filter_qs kws (\<lambda>r. qs r \<and> field r = v))"

text \<open>
  \<^verbatim>\<open>QuerySet.update(**kwargs)\<close> assigns columns. The model covers the assignments
  that the code makes, a Boolean to one of the flags \<^verbatim>\<open>unread\<close>, \<^verbatim>\<open>deleted\<close> and
  \<^verbatim>\<open>emailed\<close>. A name that is no column raises \<^verbatim>\<open>FieldError\<close>; the assignment of any
  other column is outside the model and is refused in the same way.
\<close>

definition assign :: "string \<times> pyval \<Rightarrow> error + (notification \<Rightarrow> notification)" where
  "assign kv =
     (case kv of (k, v) \<Rightarrow>
        if k \<in> {''unread'', ''deleted'', ''emailed''} then
          (case v of
             PBool b \<Rightarrow>
               Inr (\<lambda>r. if k = ''unread'' then r\<lparr>unread := b\<rparr>
                        else if k = ''deleted'' then r\<lparr>deleted := b\<rparr>
                        else r\<lparr>emailed := b\<rparr>)
           | _ \<Rightarrow> Inl (ValidationError k))
        else Inl (FieldError k))"

fun assign_all :: "(string \<times> pyval) list \<Rightarrow> error + (notification \<Rightarrow> notification)" where
  "assign_all [] = Inr (\<lambda>r. r)"
| "assign_all (kv # kws) =
     (case assign kv of
        Inl e \<Rightarrow> Inl e
      | Inr f \<Rightarrow> (case assign_all kws of Inl e \<Rightarrow> Inl e | Inr g \<Rightarrow> Inr (\<lambda>r. g (f r))))"

text \<open>
  One \<^verbatim>\<open>UPDATE\<close> statement on the rows of the queryset; the value is the number of rows
  that matched.
\<close>

definition update :: "(string \<times> pyval) list \<Rightarrow> queryset \<Rightarrow> database \<Rightarrow> (error + int) \<times> database" where
  "update kws qs db =
     (case assign_all kws of
        Inl e \<Rightarrow> (Inl e, db)
      | Inr f \<Rightarrow>
          (Inr (count qs db),
           db\<lparr>table := map (\<lambda>r. if qs r then f r else r) (table db),
              writes := writes db + 1\<rparr>))"

subsection \<open>\<^verbatim>\<open>notifications/base/models.py\<close>: the queryset methods\<close>

definition is_soft_delete :: "config \<Rightarrow> bool" where
  "is_soft_delete cfg = SOFT_DELETE cfg"

definition assert_soft_delete :: "config \<Rightarrow> error + unit" where
  "assert_soft_delete cfg =
     (if \<not> is_soft_delete cfg then Inl (ImproperlyConfigured ''REVERTME'') else Inr ())"

text \<open>The methods of \<^verbatim>\<open>NotificationQuerySet\<close>; \<open>self\<close> is the queryset argument.\<close>

definition unsent :: "queryset \<Rightarrow> error + queryset" where
  "unsent self = filter_qs [(''emailed'', PBool False)] self"

definition sent :: "queryset \<Rightarrow> error + queryset" where
  "sent self = filter_qs [(''emailed'', PBool True)] self"

definition unread_qs :: "config \<Rightarrow> bool \<Rightarrow> queryset \<Rightarrow> error + queryset" where
  "unread_qs cfg include_deleted self =
     (if is_soft_delete cfg \<and> \<not> include_deleted
      then filter_qs [(''unread'', PBool True), (''deleted'', PBool False)] self
      else filter_qs [(''unread'', PBool True)] self)"

definition read :: "config \<Rightarrow> bool \<Rightarrow> queryset \<Rightarrow> error + queryset" where
  "read cfg include_deleted self =
     (if is_soft_delete cfg \<and> \<not> include_deleted
      then filter_qs [(''unread'', PBool False), (''deleted'', PBool False)] self
      else filter_qs [(''unread'', PBool False)] self)"

text \<open>
  \<^verbatim>\<open>if recipient: qset = qset.filter(recipient=recipient.id)\<close>, the step that every bulk
  method shares. The optional recipient is a user (a model instance, which is true) or
  \<^verbatim>\<open>None\<close>.
\<close>

definition for_recipient :: "model_obj option \<Rightarrow> queryset \<Rightarrow> error + queryset" where
  "for_recipient recipient_arg qset =
     (case recipient_arg of
        None \<Rightarrow> Inr qset
      | Some u \<Rightarrow> filter_qs [(''recipient'', PInt (pk u))] qset)"

text \<open>
  The body that the bulk methods share: \<^verbatim>\<open>qset = <scope>\<close>, the optional restriction to
  the recipient, and \<^verbatim>\<open>return qset.update(<column>=<value>)\<close>.
\<close>

definition bulk :: "error + queryset \<Rightarrow> model_obj option \<Rightarrow> (string \<times> pyval) list \<Rightarrow> database
    \<Rightarrow> (error + int) \<times> database" where
  "bulk scope recipient_arg kws db =
     (case scope of
        Inl e \<Rightarrow> (Inl e, db)
      | Inr qset \<Rightarrow>
          (case for_recipient recipient_arg qset of
             Inl e \<Rightarrow> (Inl e, db)
           | Inr qset' \<Rightarrow> update kws qset' db))"

definition mark_all_as_read :: "config \<Rightarrow> queryset \<Rightarrow> model_obj option \<Rightarrow> database
    \<Rightarrow> (error + int) \<times> database" where
  "mark_all_as_read cfg self recipient_arg db =
     bulk (unread_qs cfg True self) recipient_arg [(''unread'', PBool False)] db"

definition mark_all_as_unread :: "config \<Rightarrow> queryset \<Rightarrow> model_obj option \<Rightarrow> database
    \<Rightarrow> (error + int) \<times> database" where
  "mark_all_as_unread cfg self recipient_arg db =
     bulk (read cfg True self) recipient_arg [(''unread'', PBool True)] db"

definition deleted_qs :: "config \<Rightarrow> queryset \<Rightarrow> error + queryset" where
  "deleted_qs cfg self =
     (case assert_soft_delete cfg of
        Inl e \<Rightarrow> Inl e
      | Inr _ \<Rightarrow> filter_qs [(''deleted'', PBool True)] self)"

definition active :: "config \<Rightarrow> queryset \<Rightarrow> error + queryset" where
  "active cfg self =
     (case assert_soft_delete cfg of
        Inl e \<Rightarrow> Inl e
      | Inr _ \<Rightarrow> filter_qs [(''deleted'', PBool False)] self)"

definition mark_all_as_deleted :: "config \<Rightarrow> queryset \<Rightarrow> model_obj option \<Rightarrow> database
    \<Rightarrow> (error + int) \<times> database" where
  "mark_all_as_deleted cfg self recipient_arg db =
     (case assert_soft_delete cfg of
        Inl e \<Rightarrow> (Inl e, db)
      | Inr _ \<Rightarrow> bulk (active cfg self) recipient_arg [(''deleted'', PBool True)] db)"

definition mark_all_as_active :: "config \<Rightarrow> queryset \<Rightarrow> model_obj option \<Rightarrow> database
    \<Rightarrow> (error + int) \<times> database" where
  "mark_all_as_active cfg self recipient_arg db =
     (case assert_soft_delete cfg of
        Inl e \<Rightarrow> (Inl e, db)
      | Inr _ \<Rightarrow> bulk (deleted_qs cfg self) recipient_arg [(''deleted'', PBool False)] db)"

definition mark_as_unsent :: "queryset \<Rightarrow> model_obj option \<Rightarrow> database
    \<Rightarrow> (error + int) \<times> database" where
  "mark_as_unsent self recipient_arg db = bulk (sent self) recipient_arg [(''emailed'', PBool False)] db"

definition mark_as_sent :: "queryset \<Rightarrow> model_obj option \<Rightarrow> database
    \<Rightarrow> (error + int) \<times> database" where
  "mark_as_sent self recipient_arg db = bulk (unsent self) recipient_arg [(''emailed'', PBool True)] db"

subsection \<open>\<^verbatim>\<open>notifications/base/models.py\<close>: model instances\<close>

text \<open>
  \<^verbatim>\<open>Model.save()\<close> of Django: an instance without a primary key is inserted under the next
  automatic key; an instance with a key overwrites the stored row of that key, and is
  inserted under its key when no row has it. The instance is returned with its key.
\<close>

definition save :: "notification \<Rightarrow> database \<Rightarrow> notification \<times> database" where
  "save self db =
     (case nid self of
        None \<Rightarrow>
          (let saved = self\<lparr>nid := Some (next_id db)\<rparr>
           in (saved, db\<lparr>table := table db @ [saved],
                         next_id := next_id db + 1,
                         writes := writes db + 1\<rparr>))
      | Some i \<Rightarrow>
          if Some i \<in> set (map nid (table db))
          then (self, db\<lparr>table := map (\<lambda>r. if nid r = Some i then self else r) (table db),
                          writes := writes db + 1\<rparr>)
          else (self, db\<lparr>table := table db @ [self],
                          next_id := max (next_id db) (i + 1),
                          writes := writes db + 1\<rparr>))"

text \<open>\<^verbatim>\<open>Model.delete()\<close> of Django removes the stored row of the instance's key; the
  value is the instance count, which the code never reads.\<close>

definition delete_instance :: "notification \<Rightarrow> database \<Rightarrow> (error + unit) \<times> database" where
  "delete_instance self db =
     (case nid self of
        None \<Rightarrow> (Inl (ValueError ''pk''), db)
      | Some i \<Rightarrow>
          (Inr (), db\<lparr>table := filter (\<lambda>r. nid r \<noteq> Some i) (table db),
                      writes := writes db + 1\<rparr>))"

text \<open>
  \<^verbatim>\<open>def mark_as_read(self): if self.unread: self.unread = False; self.save()\<close> and
  \<^verbatim>\<open>def mark_as_unread(self): if not self.unread: self.unread = True; self.save()\<close>.
  The instance is mutated in place: the model returns it with the database.
\<close>

definition mark_as_read :: "notification \<Rightarrow> database \<Rightarrow> notification \<times> database" where
  "mark_as_read self db = (if unread self then save (self\<lparr>unread := False\<rparr>) db else (self, db))"

definition mark_as_unread :: "notification \<Rightarrow> database \<Rightarrow> notification \<times> database" where
  "mark_as_unread self db =
     (if \<not> unread self then save (self\<lparr>unread := True\<rparr>) db else (self, db))"

subsection \<open>\<^verbatim>\<open>notifications/base/models.py\<close>: the handler of the notify signal\<close>

text \<open>
  The keyword arguments of the handler are a Python dictionary, here an association list
  in insertion order. \<open>pop key dflt\<close> is \<^verbatim>\<open>kwargs.pop(key, default)\<close>, \<open>pop_required\<close>
  is \<^verbatim>\<open>kwargs.pop(key)\<close>, which raises \<^verbatim>\<open>KeyError\<close> for a missing key. Both return the
  dictionary without the key: the source mutates \<^verbatim>\<open>kwargs\<close> in place.
\<close>

type_synonym kwargs = "(string \<times> pyval) list"

definition pop :: "string \<Rightarrow> pyval \<Rightarrow> kwargs \<Rightarrow> pyval \<times> kwargs" where
  "pop key dflt kw =
     (case map_of kw key of None \<Rightarrow> dflt | Some v \<Rightarrow> v, filter (\<lambda>kv. fst kv \<noteq> key) kw)"

definition pop_required :: "string \<Rightarrow> kwargs \<Rightarrow> error + pyval \<times> kwargs" where
  "pop_required key kw =
     (case map_of kw key of
        None \<Rightarrow> Inl (KeyError key)
      | Some v \<Rightarrow> Inr (v, filter (\<lambda>kv. fst kv \<noteq> key) kw))"

text \<open>
  What the handler takes from the Python runtime and from Django: the clock
  (\<^verbatim>\<open>timezone.now()\<close>), and \<^verbatim>\<open>hasattr\<close> and \<^verbatim>\<open>setattr\<close> on a notification instance,
  whose attributes are decided by Django's model class and not by the modelled files.
\<close>

record runtime =
  now :: pyval
  hasattr :: "notification \<Rightarrow> string \<Rightarrow> bool"
  setattr :: "notification \<Rightarrow> string \<Rightarrow> pyval \<Rightarrow> notification"

text \<open>\<^verbatim>\<open>r.id\<close> and \<^verbatim>\<open>obj.pk\<close>: the key of a model instance, \<^verbatim>\<open>AttributeError\<close> on a value
  that is none. \<^verbatim>\<open>ContentType.objects.get_for_model(obj, for_concrete_model)\<close>: the
  content type of the concrete model, or of the instance's own (proxy) class.\<close>

fun py_id :: "pyval \<Rightarrow> error + int" where
  "py_id (PObj obj) = Inr (pk obj)"
| "py_id (PGroup g members) = Inr (pk g)"
| "py_id v = Inl (AttributeError ''id'')"

fun py_pk :: "pyval \<Rightarrow> error + int" where
  "py_pk (PObj obj) = Inr (pk obj)"
| "py_pk (PGroup g members) = Inr (pk g)"
| "py_pk v = Inl (AttributeError ''pk'')"

fun get_for_model :: "pyval \<Rightarrow> bool \<Rightarrow> error + nat" where
  "get_for_model (PObj obj) for_concrete_model =
     Inr (if for_concrete_model then concrete_content_type obj else own_content_type obj)"
| "get_for_model (PGroup g members) for_concrete_model =
     Inr (if for_concrete_model then concrete_content_type g else own_content_type g)"
| "get_for_model v for_concrete_model = Inl (AttributeError ''_meta'')"

text \<open>
  \<^verbatim>\<open>if isinstance(recipient, Group): recipients = recipient.user_set.all()\<close>,
  \<^verbatim>\<open>elif isinstance(recipient, (QuerySet, list)): recipients = recipient\<close>,
  \<^verbatim>\<open>else: recipients = [recipient]\<close>, and then \<^verbatim>\<open>[r.id for r in recipients]\<close>.
\<close>

fun expand_recipients :: "pyval \<Rightarrow> pyval list" where
  "expand_recipients (PGroup g members) = map PObj members"
| "expand_recipients (PQuerySet objs) = map PObj objs"
| "expand_recipients (PList vs) = vs"
| "expand_recipients v = [v]"

fun ids :: "pyval list \<Rightarrow> error + int list" where
  "ids [] = Inr []"
| "ids (r # rs) =
     (case py_id r of
        Inl e \<Rightarrow> Inl e
      | Inr i \<Rightarrow> (case ids rs of Inl e \<Rightarrow> Inl e | Inr rest \<Rightarrow> Inr (i # rest)))"

text \<open>The values that the handler computes once, before its loop over the recipients.\<close>

record event =
  ev_verb :: string
  ev_actor :: pyval
  ev_optional_objs :: "(pyval \<times> string) list"
  ev_public :: bool
  ev_description :: pyval
  ev_timestamp :: pyval
  ev_level :: pyval
  ev_actor_for_concrete_model :: bool

text \<open>
  The body of \<^verbatim>\<open>for obj, opt in optional_objs\<close> for one pair. The flag
  \<^verbatim>\<open>{opt}_for_concrete_model\<close> is popped from \<^verbatim>\<open>kwargs\<close> here, inside the loop over the
  recipients, so the dictionary that the next recipient sees no longer has it.
\<close>

definition set_optional :: "pyval \<times> string \<Rightarrow> notification \<times> kwargs \<Rightarrow> error + notification \<times> kwargs"
  where
  "set_optional obj_opt st =
     (case obj_opt of (obj, opt) \<Rightarrow>
      case st of (newnotify, kw) \<Rightarrow>
        if obj = PNone then Inr (newnotify, kw)
        else
          (case pop (opt @ ''_for_concrete_model'') (PBool True) kw of
             (for_concrete_model, kw') \<Rightarrow>
               (case py_pk obj of
                  Inl e \<Rightarrow> Inl e
                | Inr obj_pk \<Rightarrow>
                    (case get_for_model obj (py_bool for_concrete_model) of
                       Inl e \<Rightarrow> Inl e
                     | Inr ct \<Rightarrow>
                         Inr (if opt = ''target''
                              then newnotify\<lparr>target_object_id := Some obj_pk,
                                             target_content_type := Some ct\<rparr>
                              else newnotify\<lparr>action_object_object_id := Some obj_pk,
                                             action_object_content_type := Some ct\<rparr>,
                              kw')))))"

fun set_optionals :: "(pyval \<times> string) list \<Rightarrow> notification \<times> kwargs \<Rightarrow> error + notification \<times> kwargs"
  where
  "set_optionals [] st = Inr st"
| "set_optionals (obj_opt # rest) st =
     (case set_optional obj_opt st of Inl e \<Rightarrow> Inl e | Inr st' \<Rightarrow> set_optionals rest st')"

text \<open>
  \<^verbatim>\<open>if kwargs and EXTRA_DATA:\<close> a copy of the remaining keyword arguments is made; each
  key that is an attribute of the instance is set on it and popped from the copy; the
  rest of the copy becomes \<^verbatim>\<open>newnotify.data\<close>. \<^verbatim>\<open>kwargs\<close> itself is left as it is.
\<close>

definition set_extra :: "config \<Rightarrow> runtime \<Rightarrow> kwargs \<Rightarrow> notification \<Rightarrow> notification" where
  "set_extra cfg py kw newnotify =
     (if kw \<noteq> [] \<and> USE_JSONFIELD cfg then
        (case fold (\<lambda>key (n, kwargs_copy).
                      if hasattr py n key
                      then (setattr py n key (fst (pop key PNone kwargs_copy)),
                            snd (pop key PNone kwargs_copy))
                      else (n, kwargs_copy))
                   (map fst kw) (newnotify, kw) of
           (n, kwargs_copy) \<Rightarrow> n\<lparr>data := Some kwargs_copy\<rparr>)
      else newnotify)"

text \<open>The body of \<^verbatim>\<open>for recipient in recipients\<close> up to \<^verbatim>\<open>newnotify.save()\<close>: the new
  instance with the defaults of the model for the columns that the handler does not set,
  and the keyword arguments as the body leaves them.\<close>

definition build :: "config \<Rightarrow> runtime \<Rightarrow> event \<Rightarrow> int \<Rightarrow> kwargs \<Rightarrow> error + notification \<times> kwargs"
  where
  "build cfg py ev recipient_id kw =
     (case get_for_model (ev_actor ev) (ev_actor_for_concrete_model ev) of
        Inl e \<Rightarrow> Inl e
      | Inr actor_ct \<Rightarrow>
          (case py_pk (ev_actor ev) of
             Inl e \<Rightarrow> Inl e
           | Inr actor_pk \<Rightarrow>
               (case set_optionals (ev_optional_objs ev)
                       (\<lparr>nid = None, level = ev_level ev, recipient = recipient_id,
                         unread = True, actor_content_type = actor_ct,
                         actor_object_id = actor_pk, verb = ev_verb ev,
                         description = ev_description ev,
                         target_content_type = None, target_object_id = None,
                         action_object_content_type = None, action_object_object_id = None,
                         timestamp = ev_timestamp ev, public = ev_public ev,
                         deleted = False, emailed = False, data = None\<rparr>, kw) of
                  Inl e \<Rightarrow> Inl e
                | Inr (newnotify, kw') \<Rightarrow> Inr (set_extra cfg py kw' newnotify, kw'))))"

text \<open>The loop over the recipients. An exception leaves the rows of the earlier
  recipients in the table.\<close>

fun create_all :: "config \<Rightarrow> runtime \<Rightarrow> event \<Rightarrow> int list \<Rightarrow> kwargs \<Rightarrow> notification list
    \<Rightarrow> database \<Rightarrow> (error + notification list) \<times> database" where
  "create_all cfg py ev [] kw new_notifications db = (Inr new_notifications, db)"
| "create_all cfg py ev (recipient_id # rest) kw new_notifications db =
     (case build cfg py ev recipient_id kw of
        Inl e \<Rightarrow> (Inl e, db)
      | Inr (newnotify, kw') \<Rightarrow>
          (case save newnotify db of
             (saved, db') \<Rightarrow> create_all cfg py ev rest kw' (new_notifications @ [saved]) db'))"

text \<open>
  \<^verbatim>\<open>def notify_handler(verb, **kwargs)\<close>. \<^verbatim>\<open>EXTRA_DATA\<close> is the setting
  \<^verbatim>\<open>USE_JSONFIELD\<close>, \<^verbatim>\<open>Notification.LEVELS.info\<close> is the string \<^verbatim>\<open>info\<close>, and
  \<^verbatim>\<open>str(verb)\<close> is \<^verbatim>\<open>verb\<close> for a string.
\<close>

definition notify_handler :: "config \<Rightarrow> runtime \<Rightarrow> string \<Rightarrow> kwargs \<Rightarrow> database
    \<Rightarrow> (error + notification list) \<times> database" where
  "notify_handler cfg py verb_arg kwargs0 db =
     (let kw = snd (pop ''signal'' PNone kwargs0) in
      case pop_required ''recipient'' kw of
        Inl e \<Rightarrow> (Inl e, db)
      | Inr (recipient_arg, kw) \<Rightarrow>
     (case pop_required ''sender'' kw of
        Inl e \<Rightarrow> (Inl e, db)
      | Inr (actor, kw) \<Rightarrow>
     (let (target, kw) = pop ''target'' PNone kw;
          (action_object, kw) = pop ''action_object'' PNone kw;
          optional_objs = [(target, ''target''), (action_object, ''action_object'')];
          (public_arg, kw) = pop ''public'' (PBool True) kw;
          (description_arg, kw) = pop ''description'' PNone kw;
          (timestamp_arg, kw) = pop ''timestamp'' (now py) kw;
          (level_arg, kw) = pop ''level'' (PStr ''info'') kw;
          (actor_for_concrete_model, kw) = pop ''actor_for_concrete_model'' (PBool True) kw
      in case ids (expand_recipients recipient_arg) of
           Inl e \<Rightarrow> (Inl e, db)
         | Inr recipients \<Rightarrow>
             create_all cfg py
               \<lparr>ev_verb = verb_arg, ev_actor = actor, ev_optional_objs = optional_objs,
                ev_public = py_bool public_arg, ev_description = description_arg,
                ev_timestamp = timestamp_arg, ev_level = level_arg,
                ev_actor_for_concrete_model = py_bool actor_for_concrete_model\<rparr>
               recipients kw [] db)))"

subsection \<open>\<^verbatim>\<open>notifications/views.py\<close>\<close>

text \<open>
  A request as the views read it: \<^verbatim>\<open>request.user\<close> (\<open>None\<close> is the anonymous user, whose
  \<^verbatim>\<open>is_authenticated\<close> is false and whose \<^verbatim>\<open>id\<close> is \<^verbatim>\<open>None\<close>) and
  \<^verbatim>\<open>request.GET.get("next")\<close>.
\<close>

record request =
  user :: "model_obj option"
  GET_next :: "string option"

definition is_authenticated :: "request \<Rightarrow> bool" where
  "is_authenticated req = (user req \<noteq> None)"

definition user_id :: "request \<Rightarrow> pyval" where
  "user_id req = opt_val (\<lambda>u. PInt (pk u)) (user req)"

datatype json = JInt int | JStr string | JList "json list" | JDict "(string \<times> json) list"

datatype location = Url string | Route string

datatype response =
    Redirect location
  | RedirectToLogin
  | JsonResponse "(string \<times> json) list"

text \<open>
  What the views take from Django and from \<^verbatim>\<open>notifications/helpers.py\<close>, which is not
  among the modelled files: \<^verbatim>\<open>url_has_allowed_host_and_scheme(_, settings.ALLOWED_HOSTS)\<close>,
  \<^verbatim>\<open>iri_to_uri\<close> and \<^verbatim>\<open>get_notification_list(request, method_name)\<close>.
\<close>

record framework =
  url_has_allowed_host_and_scheme :: "string \<Rightarrow> bool"
  iri_to_uri :: "string \<Rightarrow> string"
  get_notification_list :: "request \<Rightarrow> string \<Rightarrow> database \<Rightarrow> json list"

text \<open>\<^verbatim>\<open>@login_required\<close>: an anonymous request is redirected to the login page and the
  view is not run.\<close>

definition login_required ::
  "(request \<Rightarrow> database \<Rightarrow> (error + response) \<times> database)
    \<Rightarrow> request \<Rightarrow> database \<Rightarrow> (error + response) \<times> database" where
  "login_required view req db =
     (if is_authenticated req then view req db else (Inr RedirectToLogin, db))"

text \<open>
  The end that the action views share:
  \<^verbatim>\<open>_next = request.GET.get("next")\<close>,
  \<^verbatim>\<open>if _next and url_has_allowed_host_and_scheme(_next, settings.ALLOWED_HOSTS):
  return redirect(iri_to_uri(_next))\<close>, and the redirect to the named route otherwise.
\<close>

definition redirect_next :: "framework \<Rightarrow> request \<Rightarrow> string \<Rightarrow> response" where
  "redirect_next fw req fallback =
     (case GET_next req of
        None \<Rightarrow> Redirect (Route fallback)
      | Some next_url \<Rightarrow>
          if next_url \<noteq> [] \<and> url_has_allowed_host_and_scheme fw next_url
          then Redirect (Url (iri_to_uri fw next_url))
          else Redirect (Route fallback))"

text \<open>\<^verbatim>\<open>get_object_or_404(Notification, **kwargs)\<close>.\<close>

definition get_object_or_404 :: "(string \<times> pyval) list \<Rightarrow> database \<Rightarrow> error + notification" where
  "get_object_or_404 kws db =
     (case filter_qs kws objects of
        Inl e \<Rightarrow> Inl e
      | Inr qs \<Rightarrow>
          (case rows qs db of
             [] \<Rightarrow> Inl Http404
           | [found] \<Rightarrow> Inr found
           | _ \<Rightarrow> Inl MultipleObjectsReturned))"

text \<open>\<^verbatim>\<open>AllNotificationsList.get_queryset\<close> and \<^verbatim>\<open>UnreadNotificationsList.get_queryset\<close>.\<close>

definition AllNotificationsList_get_queryset :: "config \<Rightarrow> request \<Rightarrow> error + queryset" where
  "AllNotificationsList_get_queryset cfg req =
     (if SOFT_DELETE cfg
      then filter_qs [(''recipient'', user_id req), (''active'', PBool True)] objects
      else filter_qs [(''recipient'', user_id req)] objects)"

definition UnreadNotificationsList_get_queryset :: "request \<Rightarrow> error + queryset" where
  "UnreadNotificationsList_get_queryset req =
     filter_qs [(''recipient'', user_id req), (''unread'', PBool True)] objects"

text \<open>\<^verbatim>\<open>QuerySet.delete()\<close> of Django: one \<^verbatim>\<open>DELETE\<close> of the rows of the queryset.\<close>

definition delete_qs :: "queryset \<Rightarrow> database \<Rightarrow> (error + int) \<times> database" where
  "delete_qs qs db =
     (Inr (count qs db),
      db\<lparr>table := filter (\<lambda>r. \<not> qs r) (table db), writes := writes db + 1\<rparr>)"

text \<open>
  The attribute lookup \<^verbatim>\<open>notifications.<name>()\<close> on a \<^verbatim>\<open>NotificationQuerySet\<close>, for a
  call without arguments whose value is dropped: the methods that the class declares in
  \<^verbatim>\<open>models.py\<close>, and \<^verbatim>\<open>delete\<close> of Django's \<^verbatim>\<open>QuerySet\<close>. The other methods that the
  class inherits from Django (\<^verbatim>\<open>all\<close>, \<^verbatim>\<open>count\<close>, \<^verbatim>\<open>exists\<close> and so on) do not write and
  are not listed. A name that is no attribute raises \<^verbatim>\<open>AttributeError\<close>.
\<close>

definition dropped :: "(error + 'a) \<times> database \<Rightarrow> (error + unit) \<times> database" where
  "dropped res = (case res of (Inl e, db) \<Rightarrow> (Inl e, db) | (Inr v, db) \<Rightarrow> (Inr (), db))"

definition NotificationQuerySet_methods ::
  "config \<Rightarrow> (string \<times> (queryset \<Rightarrow> database \<Rightarrow> (error + unit) \<times> database)) list" where
  "NotificationQuerySet_methods cfg =
    [(''unsent'', \<lambda>qs db. dropped (unsent qs, db)),
     (''sent'', \<lambda>qs db. dropped (sent qs, db)),
     (''unread'', \<lambda>qs db. dropped (unread_qs cfg False qs, db)),
     (''read'', \<lambda>qs db. dropped (read cfg False qs, db)),
     (''mark_all_as_read'', \<lambda>qs db. dropped (mark_all_as_read cfg qs None db)),
     (''mark_all_as_unread'', \<lambda>qs db. dropped (mark_all_as_unread cfg qs None db)),
     (''deleted'', \<lambda>qs db. dropped (deleted_qs cfg qs, db)),
     (''active'', \<lambda>qs db. dropped (active cfg qs, db)),
     (''mark_all_as_deleted'', \<lambda>qs db. dropped (mark_all_as_deleted cfg qs None db)),
     (''mark_all_as_active'', \<lambda>qs db. dropped (mark_all_as_active cfg qs None db)),
     (''mark_as_unsent'', \<lambda>qs db. dropped (mark_as_unsent qs None db)),
     (''mark_as_sent'', \<lambda>qs db. dropped (mark_as_sent qs None db)),
     (''delete'', \<lambda>qs db. dropped (delete_qs qs db))]"

definition call_method :: "config \<Rightarrow> string \<Rightarrow> queryset \<Rightarrow> database \<Rightarrow> (error + unit) \<times> database"
  where
  "call_method cfg name qs db =
     (case map_of (NotificationQuerySet_methods cfg) name of
        None \<Rightarrow> (Inl (AttributeError name), db)
      | Some method \<Rightarrow> method qs db)"

text \<open>
  \<^verbatim>\<open>def delete_all(request)\<close>:
  \<^verbatim>\<open>notifications = Notification.objects.filter(recipient=request.user.id)\<close>, then
  \<^verbatim>\<open>notifications.delete_all()\<close>, then the shared redirect to \<^verbatim>\<open>notifications:unread\<close>.
\<close>

definition delete_all :: "config \<Rightarrow> framework \<Rightarrow> request \<Rightarrow> database
    \<Rightarrow> (error + response) \<times> database" where
  "delete_all cfg fw =
     login_required (\<lambda>req db.
       case filter_qs [(''recipient'', user_id req)] objects of
         Inl e \<Rightarrow> (Inl e, db)
       | Inr notifications \<Rightarrow>
           (case call_method cfg ''delete_all'' notifications db of
              (Inl e, db') \<Rightarrow> (Inl e, db')
            | (Inr _, db') \<Rightarrow> (Inr (redirect_next fw req ''notifications:unread''), db')))"

text \<open>
  \<^verbatim>\<open>def delete(request, slug=None)\<close>: \<^verbatim>\<open>Http404\<close> without a slug; the notification of
  the requesting user with the id of the slug, or \<^verbatim>\<open>Http404\<close>; under
  \<^verbatim>\<open>SOFT_DELETE\<close> the instance gets \<^verbatim>\<open>deleted = True\<close> and is saved, otherwise it is
  deleted; then the shared redirect to \<^verbatim>\<open>notifications:all\<close>.
\<close>

definition delete :: "config \<Rightarrow> framework \<Rightarrow> int option \<Rightarrow> request \<Rightarrow> database
    \<Rightarrow> (error + response) \<times> database" where
  "delete cfg fw slug =
     login_required (\<lambda>req db.
       case slug of
         None \<Rightarrow> (Inl Http404, db)
       | Some s \<Rightarrow>
           (let notification_id = slug2id s in
            case get_object_or_404
                   [(''recipient'', user_id req), (''id'', PInt notification_id)] db of
              Inl e \<Rightarrow> (Inl e, db)
            | Inr notification \<Rightarrow>
                (if SOFT_DELETE cfg
                 then (case save (notification\<lparr>deleted := True\<rparr>) db of
                         (saved, db') \<Rightarrow>
                           (Inr (redirect_next fw req ''notifications:all''), db'))
                 else (case delete_instance notification db of
                         (Inl e, db') \<Rightarrow> (Inl e, db')
                       | (Inr _, db') \<Rightarrow>
                           (Inr (redirect_next fw req ''notifications:all''), db')))))"

text \<open>
  The JSON views. They only read the table. \<^verbatim>\<open>@never_cache\<close> adds response headers,
  which are not modelled.
\<close>

definition live_unread_notification_count :: "request \<Rightarrow> database \<Rightarrow> error + response" where
  "live_unread_notification_count req db =
     (if \<not> is_authenticated req then Inr (JsonResponse [(''unread_count'', JInt 0)])
      else
        (case filter_qs [(''recipient'', user_id req), (''unread'', PBool True)] objects of
           Inl e \<Rightarrow> Inl e
         | Inr qs \<Rightarrow> Inr (JsonResponse [(''unread_count'', JInt (count qs db))])))"

definition live_unread_notification_list :: "framework \<Rightarrow> request \<Rightarrow> database \<Rightarrow> error + response"
  where
  "live_unread_notification_list fw req db =
     (if \<not> is_authenticated req
      then Inr (JsonResponse [(''unread_count'', JInt 0), (''unread_list'', JList [])])
      else
        (let unread_list = get_notification_list fw req ''unread'' db in
         case filter_qs [(''recipient'', user_id req), (''unread'', PBool True)] objects of
           Inl e \<Rightarrow> Inl e
         | Inr qs \<Rightarrow>
             Inr (JsonResponse [(''unread_count'', JInt (count qs db)),
                                (''unread_list'', JList unread_list)])))"

definition live_all_notification_list :: "framework \<Rightarrow> request \<Rightarrow> database \<Rightarrow> error + response"
  where
  "live_all_notification_list fw req db =
     (if \<not> is_authenticated req
      then Inr (JsonResponse [(''all_count'', JInt 0), (''all_list'', JList [])])
      else
        (let all_list = get_notification_list fw req ''all'' db in
         case filter_qs [(''recipient'', user_id req)] objects of
           Inl e \<Rightarrow> Inl e
         | Inr qs \<Rightarrow>
             Inr (JsonResponse [(''all_count'', JInt (count qs db)),
                                (''all_list'', JList all_list)])))"

definition live_all_notification_count :: "request \<Rightarrow> database \<Rightarrow> error + response" where
  "live_all_notification_count req db =
     (if \<not> is_authenticated req then Inr (JsonResponse [(''all_count'', JInt 0)])
      else
        (case filter_qs [(''recipient'', user_id req)] objects of
           Inl e \<Rightarrow> Inl e
         | Inr qs \<Rightarrow> Inr (JsonResponse [(''all_count'', JInt (count qs db))])))"

subsection \<open>Example data\<close>

text \<open>The concrete settings, rows and requests at which the theorems are instantiated.\<close>

definition soft_cfg :: config where
  "soft_cfg = \<lparr>SOFT_DELETE = True, USE_JSONFIELD = True, PAGINATE_BY = 20\<rparr>"

definition hard_cfg :: config where
  "hard_cfg = \<lparr>SOFT_DELETE = False, USE_JSONFIELD = True, PAGINATE_BY = 20\<rparr>"

definition example_row :: "int \<Rightarrow> int \<Rightarrow> bool \<Rightarrow> bool \<Rightarrow> notification" where
  "example_row i u is_unread is_deleted =
     \<lparr>nid = Some i, level = PStr ''info'', recipient = u, unread = is_unread,
      actor_content_type = 4, actor_object_id = 1, verb = ''commented'',
      description = PNone, target_content_type = None, target_object_id = None,
      action_object_content_type = None, action_object_object_id = None,
      timestamp = PInt 0, public = True, deleted = is_deleted, emailed = False,
      data = None\<rparr>"

definition example_db :: database where
  "example_db =
     \<lparr>table = [example_row 1 5 True False, example_row 2 5 True True,
               example_row 3 5 False False, example_row 4 6 True False],
      next_id = 5, writes = 0\<rparr>"

definition example_user :: "int \<Rightarrow> model_obj" where
  "example_user i = \<lparr>pk = i, own_content_type = 4, concrete_content_type = 4\<rparr>"

definition example_request :: "int \<Rightarrow> request" where
  "example_request i = \<lparr>user = Some (example_user i), GET_next = None\<rparr>"

definition anonymous_request :: request where
  "anonymous_request = \<lparr>user = None, GET_next = None\<rparr>"

definition example_framework :: framework where
  "example_framework =
     \<lparr>url_has_allowed_host_and_scheme = (\<lambda>url. False), iri_to_uri = (\<lambda>url. url),
      get_notification_list = (\<lambda>req method_name db. [])\<rparr>"

definition example_proxy :: model_obj where
  "example_proxy = \<lparr>pk = 9, own_content_type = 8, concrete_content_type = 7\<rparr>"

definition example_kwargs :: kwargs where
  "example_kwargs =
     [(''recipient'', PList [PObj (example_user 5), PObj (example_user 6)]),
      (''sender'', PObj (example_user 1)),
      (''target'', PObj example_proxy),
      (''target_for_concrete_model'', PBool False)]"

definition empty_db :: database where
  "empty_db = \<lparr>table = [], next_id = 1, writes = 0\<rparr>"

section \<open>Theorems\<close>

subsection \<open>Keyword lookups\<close>

lemma field_unread: "map_of notification_fields ''unread'' = Some (\<lambda>r. PBool (unread r))"
  by (simp add: notification_fields_def)

lemma field_deleted: "map_of notification_fields ''deleted'' = Some (\<lambda>r. PBool (deleted r))"
  by (simp add: notification_fields_def)

lemma field_recipient: "map_of notification_fields ''recipient'' = Some (\<lambda>r. PInt (recipient r))"
  by (simp add: notification_fields_def)

lemma field_id: "map_of notification_fields ''id'' = Some (\<lambda>r. opt_val PInt (nid r))"
  by (simp add: notification_fields_def)

lemma field_active: "map_of notification_fields ''active'' = None"
  by (simp add: notification_fields_def)

lemma assign_unread: "assign (''unread'', PBool b) = Inr (\<lambda>r. r\<lparr>unread := b\<rparr>)"
  by (simp add: assign_def)

lemma assign_deleted: "assign (''deleted'', PBool b) = Inr (\<lambda>r. r\<lparr>deleted := b\<rparr>)"
  by (simp add: assign_def)

subsection \<open>Slugs\<close>

text \<open>
  C3: for every non-negative integer id, \<open>slug2id (id2slug id) = id\<close>; every slug that
  \<open>id2slug\<close> produces is mapped back to itself by \<open>id2slug \<circ> slug2id\<close>; and the slug is
  the id plus the fixed offset 110909.
\<close>

theorem slug_roundtrip:
  assumes "0 \<le> i"
  shows "slug2id (id2slug i) = i
     \<and> id2slug (slug2id (id2slug i)) = id2slug i
     \<and> id2slug i = i + 110909"
  by (simp add: slug2id_def id2slug_def)

theorem slug_roundtrip_witness:
  "(0::int) \<le> 7 \<and> slug2id (id2slug 7) = 7 \<and> id2slug (slug2id (id2slug 7)) = id2slug 7
     \<and> id2slug 7 = 110916"
  using slug_roundtrip [of 7] by (simp add: id2slug_def)

subsection \<open>Queryset scopes and bulk updates\<close>

text \<open>
  C4: on every queryset, \<open>unread_qs\<close> returns exactly the rows with \<open>unread\<close> true and
  \<open>read\<close> exactly the rows with \<open>unread\<close> false; a row with \<open>deleted\<close> true is
  excluded exactly when soft-delete mode is enabled and \<open>include_deleted\<close> is false.
\<close>

theorem unread_read_scopes:
  "unread_qs cfg include_deleted qs
     = Inr (\<lambda>r. qs r \<and> unread r \<and> \<not> (SOFT_DELETE cfg \<and> \<not> include_deleted \<and> deleted r))
   \<and> read cfg include_deleted qs
     = Inr (\<lambda>r. qs r \<and> \<not> unread r \<and> \<not> (SOFT_DELETE cfg \<and> \<not> include_deleted \<and> deleted r))"
  by (auto simp add: unread_qs_def read_def is_soft_delete_def field_unread field_deleted)

text \<open>
  C5: with soft-delete mode disabled, \<open>deleted_qs\<close>, \<open>active\<close>, \<open>mark_all_as_deleted\<close>
  and \<open>mark_all_as_active\<close> raise \<open>ImproperlyConfigured\<close> on every queryset, and the two
  bulk methods leave the database as it was.
\<close>

theorem soft_delete_disabled:
  assumes "\<not> SOFT_DELETE cfg"
  shows "deleted_qs cfg qs = Inl (ImproperlyConfigured ''REVERTME'')
     \<and> active cfg qs = Inl (ImproperlyConfigured ''REVERTME'')
     \<and> mark_all_as_deleted cfg qs rcp db = (Inl (ImproperlyConfigured ''REVERTME''), db)
     \<and> mark_all_as_active cfg qs rcp db = (Inl (ImproperlyConfigured ''REVERTME''), db)"
  using assms
  by (simp add: deleted_qs_def active_def mark_all_as_deleted_def mark_all_as_active_def
      assert_soft_delete_def is_soft_delete_def)

theorem soft_delete_disabled_witness:
  "\<not> SOFT_DELETE hard_cfg
     \<and> deleted_qs hard_cfg objects = Inl (ImproperlyConfigured ''REVERTME'')
     \<and> active hard_cfg objects = Inl (ImproperlyConfigured ''REVERTME'')
     \<and> mark_all_as_deleted hard_cfg objects None example_db
         = (Inl (ImproperlyConfigured ''REVERTME''), example_db)
     \<and> mark_all_as_active hard_cfg objects None example_db
         = (Inl (ImproperlyConfigured ''REVERTME''), example_db)"
  using soft_delete_disabled [of hard_cfg objects None example_db]
  by (simp add: hard_cfg_def)

text \<open>What \<open>mark_all_as_read\<close> without a recipient computes: it goes through
  \<open>unread_qs\<close> with \<open>include_deleted\<close> true, so the setting is not consulted.\<close>

lemma mark_all_as_read_None:
  "mark_all_as_read cfg qs None db =
     (Inr (int (length (filter (\<lambda>r. qs r \<and> unread r) (table db)))),
      db\<lparr>table := map (\<lambda>r. if qs r \<and> unread r then r\<lparr>unread := False\<rparr> else r) (table db),
         writes := writes db + 1\<rparr>)"
  by (simp add: mark_all_as_read_def bulk_def unread_qs_def field_unread for_recipient_def
      update_def assign_unread count_def rows_def)

text \<open>
  C2: with soft-delete mode enabled, \<open>mark_all_as_read\<close> on any queryset \<open>qs\<close> returns a
  count and a table of the same length in which every row of \<open>qs\<close> that was unread and
  not deleted is the old row with \<open>unread\<close> false, every row that was already read is
  unchanged, and the count is the number of rows whose \<open>unread\<close> flag changed.
\<close>

theorem mark_all_as_read_flips:
  assumes "SOFT_DELETE cfg"
  shows "\<exists>n db'. mark_all_as_read cfg qs None db = (Inr n, db')
     \<and> length (table db') = length (table db)
     \<and> (\<forall>i<length (table db).
           qs (table db ! i) \<and> unread (table db ! i) \<and> \<not> deleted (table db ! i)
             \<longrightarrow> table db' ! i = (table db ! i)\<lparr>unread := False\<rparr>)
     \<and> (\<forall>i<length (table db). \<not> unread (table db ! i) \<longrightarrow> table db' ! i = table db ! i)
     \<and> n = int (card {i. i < length (table db)
                        \<and> unread (table db' ! i) \<noteq> unread (table db ! i)})"
proof -
  let ?hit = "\<lambda>r. qs r \<and> unread r"
  let ?t = "table db"
  let ?t' = "map (\<lambda>r. if ?hit r then r\<lparr>unread := False\<rparr> else r) ?t"
  have flipped: "{i. i < length ?t \<and> unread (?t' ! i) \<noteq> unread (?t ! i)}
      = {i. i < length ?t \<and> ?hit (?t ! i)}"
    by (auto split: if_splits)
  have "int (length (filter ?hit ?t))
      = int (card {i. i < length ?t \<and> unread (?t' ! i) \<noteq> unread (?t ! i)})"
    unfolding flipped by (simp add: length_filter_conv_card)
  then show ?thesis
    unfolding mark_all_as_read_None by (intro exI conjI) (rule refl, auto)
qed

theorem mark_all_as_read_flips_witness:
  "SOFT_DELETE soft_cfg
     \<and> mark_all_as_read soft_cfg (\<lambda>r. recipient r = 5) None example_db
         = (Inr 2,
            \<lparr>table = [example_row 1 5 False False, example_row 2 5 False True,
                      example_row 3 5 False False, example_row 4 6 True False],
             next_id = 5, writes = 1\<rparr>)"
  using mark_all_as_read_flips [of soft_cfg "\<lambda>r. recipient r = 5" example_db]
  by (simp add: soft_cfg_def mark_all_as_read_None example_db_def example_row_def)

subsection \<open>Single notifications\<close>

lemma save_keeps_unread: "unread (fst (save self db)) = unread self"
  by (simp add: save_def Let_def split: option.splits)

lemma save_writes: "writes (snd (save self db)) = writes db + 1"
  by (simp add: save_def Let_def split: option.splits)

text \<open>
  C10: \<open>mark_as_read\<close> on a read instance and \<open>mark_as_unread\<close> on an unread instance
  return the instance and the database as they were; a second call of either method
  right after the first returns what the first returned, the count of writes included;
  and a call writes once exactly when it changes the flag.
\<close>

theorem mark_as_read_idempotent:
  "mark_as_read (self\<lparr>unread := False\<rparr>) db = (self\<lparr>unread := False\<rparr>, db)
   \<and> mark_as_unread (self\<lparr>unread := True\<rparr>) db = (self\<lparr>unread := True\<rparr>, db)
   \<and> (let (self1, db1) = mark_as_read self db in mark_as_read self1 db1 = (self1, db1))
   \<and> (let (self1, db1) = mark_as_unread self db in mark_as_unread self1 db1 = (self1, db1))
   \<and> writes (snd (mark_as_read self db)) = writes db + (if unread self then 1 else 0)
   \<and> writes (snd (mark_as_unread self db)) = writes db + (if unread self then 0 else 1)"
proof -
  have r: "mark_as_read s d = (s, d)" if "\<not> unread s" for s d
    using that by (simp add: mark_as_read_def)
  have u: "mark_as_unread s d = (s, d)" if "unread s" for s d
    using that by (simp add: mark_as_unread_def)
  have r2: "mark_as_read (fst (mark_as_read self db)) (snd (mark_as_read self db))
      = mark_as_read self db"
    by (cases "unread self") (simp_all add: r mark_as_read_def save_keeps_unread)
  have u2: "mark_as_unread (fst (mark_as_unread self db)) (snd (mark_as_unread self db))
      = mark_as_unread self db"
    by (cases "unread self") (simp_all add: u mark_as_unread_def save_keeps_unread)
  have wr: "writes (snd (mark_as_read self db)) = writes db + (if unread self then 1 else 0)"
    by (simp add: mark_as_read_def save_writes)
  have wu: "writes (snd (mark_as_unread self db)) = writes db + (if unread self then 0 else 1)"
    by (simp add: mark_as_unread_def save_writes)
  from r2 u2 wr wu show ?thesis
    by (simp add: r u case_prod_unfold)
qed

subsection \<open>Views\<close>

text \<open>
  C9: for every request of the anonymous user, each of the four JSON views returns a
  response, with a count of zero and, for the list views, an empty list; the
  unread-count view returns \<^verbatim>\<open>{"unread_count": 0}\<close>.
\<close>

theorem anonymous_json:
  assumes "\<not> is_authenticated req"
  shows "live_unread_notification_count req db
       = Inr (JsonResponse [(''unread_count'', JInt 0)])
     \<and> live_unread_notification_list fw req db
       = Inr (JsonResponse [(''unread_count'', JInt 0), (''unread_list'', JList [])])
     \<and> live_all_notification_list fw req db
       = Inr (JsonResponse [(''all_count'', JInt 0), (''all_list'', JList [])])
     \<and> live_all_notification_count req db
       = Inr (JsonResponse [(''all_count'', JInt 0)])"
  using assms
  by (simp add: live_unread_notification_count_def live_unread_notification_list_def
      live_all_notification_list_def live_all_notification_count_def)

theorem anonymous_json_witness:
  "\<not> is_authenticated anonymous_request
     \<and> live_unread_notification_count anonymous_request example_db
       = Inr (JsonResponse [(''unread_count'', JInt 0)])
     \<and> live_unread_notification_list example_framework anonymous_request example_db
       = Inr (JsonResponse [(''unread_count'', JInt 0), (''unread_list'', JList [])])
     \<and> live_all_notification_list example_framework anonymous_request example_db
       = Inr (JsonResponse [(''all_count'', JInt 0), (''all_list'', JList [])])
     \<and> live_all_notification_count anonymous_request example_db
       = Inr (JsonResponse [(''all_count'', JInt 0)])"
  using anonymous_json [of anonymous_request example_db example_framework]
  by (simp add: is_authenticated_def anonymous_request_def)

text \<open>With unique primary keys, the lookup by recipient and id finds the one row.\<close>

lemma filter_unique_id:
  assumes "distinct (map nid xs)" and "r \<in> set xs" and "P r"
  shows "filter (\<lambda>x. P x \<and> nid x = nid r) xs = [r]"
  using assms
proof (induction xs)
  case Nil
  then show ?case by simp
next
  case (Cons x xs)
  show ?case
  proof (cases "x = r")
    case True
    with Cons.prems have "\<forall>y\<in>set xs. nid y \<noteq> nid r" by (auto simp: image_iff)
    then have "filter (\<lambda>x. P x \<and> nid x = nid r) xs = []" by (simp add: filter_empty_conv)
    with True Cons.prems show ?thesis by simp
  next
    case False
    with Cons.prems have "r \<in> set xs" and "nid x \<noteq> nid r" by (auto simp: image_iff)
    with Cons show ?thesis by simp
  qed
qed

lemma get_own_notification:
  assumes "user req = Some u" and "distinct (map nid (table db))" and "r \<in> set (table db)"
    and "nid r = Some i" and "recipient r = pk u"
  shows "get_object_or_404 [(''recipient'', user_id req), (''id'', PInt i)] db = Inr r"
proof -
  have "rows (\<lambda>x. (objects x \<and> PInt (recipient x) = user_id req) \<and> opt_val PInt (nid x) = PInt i) db
      = filter (\<lambda>x. recipient x = pk u \<and> nid x = nid r) (table db)"
    using assms(1,4)
    by (auto simp add: rows_def objects_def user_id_def opt_val_def split: option.splits
        intro!: filter_cong)
  also have "\<dots> = [r]"
    using assms by (intro filter_unique_id) simp_all
  finally show ?thesis
    by (simp add: get_object_or_404_def field_recipient field_id)
qed

text \<open>
  C6: a delete request of an authenticated user \<open>u\<close> for the slug of a stored
  notification \<open>r\<close> whose recipient is \<open>u\<close> (primary keys being unique) succeeds. With
  soft-delete mode on, the stored row of that id becomes \<open>r\<close> with \<open>deleted\<close> true, so
  it is still in the table, and \<open>active\<close> has no row of that id. With soft-delete mode
  off, the table loses the row and has no row of that id.
\<close>

theorem delete_soft_or_hard:
  assumes "user req = Some u"
    and "distinct (map nid (table db))"
    and "r \<in> set (table db)"
    and "nid r = Some (slug2id slug)"
    and "recipient r = pk u"
  shows "\<exists>resp db'. delete cfg fw (Some slug) req db = (Inr resp, db')
     \<and> (if SOFT_DELETE cfg
         then table db' = map (\<lambda>x. if nid x = nid r then r\<lparr>deleted := True\<rparr> else x) (table db)
            \<and> r\<lparr>deleted := True\<rparr> \<in> set (table db')
            \<and> (\<exists>qs. active cfg objects = Inr qs \<and> nid r \<notin> set (map nid (rows qs db')))
         else table db' = filter (\<lambda>x. nid x \<noteq> nid r) (table db)
            \<and> nid r \<notin> set (map nid (table db')))"
proof -
  have found: "get_object_or_404 [(''recipient'', user_id req), (''id'', PInt (slug2id slug))] db
      = Inr r"
    using assms by (rule get_own_notification)
  have auth: "is_authenticated req"
    using assms(1) by (simp add: is_authenticated_def)
  show ?thesis
  proof (cases "SOFT_DELETE cfg")
    case True
    let ?t' = "map (\<lambda>x. if nid x = nid r then r\<lparr>deleted := True\<rparr> else x) (table db)"
    have stored: "Some (slug2id slug) \<in> set (map nid (table db))"
      using assms(3,4) by (force simp: image_iff)
    have run: "delete cfg fw (Some slug) req db
        = (Inr (redirect_next fw req ''notifications:all''),
           db\<lparr>table := ?t', writes := writes db + 1\<rparr>)"
      using True auth stored assms(4)
      by (simp add: delete_def login_required_def found save_def)
    have kept: "r\<lparr>deleted := True\<rparr> \<in> set ?t'"
      using assms(3) by (auto simp: image_iff)
    have act: "active cfg objects = Inr (\<lambda>x. objects x \<and> deleted x = False)"
      using True
      by (simp add: active_def assert_soft_delete_def is_soft_delete_def field_deleted)
    have gone: "nid r \<notin> set (map nid (rows (\<lambda>x. objects x \<and> deleted x = False)
        (db\<lparr>table := ?t', writes := writes db + 1\<rparr>)))"
      by (auto simp: rows_def)
    from True run kept act gone show ?thesis by simp
  next
    case False
    have run: "delete cfg fw (Some slug) req db
        = (Inr (redirect_next fw req ''notifications:all''),
           db\<lparr>table := filter (\<lambda>x. nid x \<noteq> nid r) (table db), writes := writes db + 1\<rparr>)"
      using False auth assms(4)
      by (simp add: delete_def login_required_def found delete_instance_def)
    from False run show ?thesis by auto
  qed
qed

theorem delete_soft_or_hard_witness:
  "user (example_request 5) = Some (example_user 5)
   \<and> distinct (map nid (table example_db))
   \<and> example_row 1 5 True False \<in> set (table example_db)
   \<and> nid (example_row 1 5 True False) = Some (slug2id 110910)
   \<and> recipient (example_row 1 5 True False) = pk (example_user 5)
   \<and> delete soft_cfg example_framework (Some 110910) (example_request 5) example_db
       = (Inr (Redirect (Route ''notifications:all'')),
          \<lparr>table = [example_row 1 5 True True, example_row 2 5 True True,
                    example_row 3 5 False False, example_row 4 6 True False],
           next_id = 5, writes = 1\<rparr>)
   \<and> delete hard_cfg example_framework (Some 110910) (example_request 5) example_db
       = (Inr (Redirect (Route ''notifications:all'')),
          \<lparr>table = [example_row 2 5 True True,
                    example_row 3 5 False False, example_row 4 6 True False],
           next_id = 5, writes = 1\<rparr>)"
  using delete_soft_or_hard [of "example_request 5" "example_user 5" example_db
      "example_row 1 5 True False" 110910 soft_cfg example_framework]
  by (simp add: delete_def login_required_def is_authenticated_def example_request_def
      example_user_def get_object_or_404_def field_recipient field_id user_id_def opt_val_def
      rows_def objects_def example_db_def example_row_def save_def delete_instance_def
      redirect_next_def soft_cfg_def hard_cfg_def slug2id_def)

text \<open>The two branches of \<open>AllNotificationsList_get_queryset\<close>: the keyword
  \<^verbatim>\<open>active\<close> of the soft-delete branch is no column of the model.\<close>

lemma get_queryset_soft_delete:
  "SOFT_DELETE cfg \<Longrightarrow> AllNotificationsList_get_queryset cfg req = Inl (FieldError ''active'')"
  by (simp add: AllNotificationsList_get_queryset_def field_recipient field_active)

lemma get_queryset_hard_delete:
  "\<not> SOFT_DELETE cfg \<Longrightarrow>
     AllNotificationsList_get_queryset cfg req = Inr (\<lambda>r. PInt (recipient r) = user_id req)"
  by (simp add: AllNotificationsList_get_queryset_def field_recipient objects_def)

text \<open>
  C7, at the input where the code departs from it: with soft-delete mode enabled, the
  queryset of the all-notifications list for the authenticated user 5 is not the user's
  active notifications; the lookup raises \<open>FieldError\<close> for the keyword \<^verbatim>\<open>active\<close>.
\<close>

theorem all_list_soft_delete_raises:
  "AllNotificationsList_get_queryset soft_cfg (example_request 5) = Inl (FieldError ''active'')"
  by (simp add: get_queryset_soft_delete soft_cfg_def)

lemma no_delete_all: "map_of (NotificationQuerySet_methods cfg) ''delete_all'' = None"
  by (simp add: NotificationQuerySet_methods_def)

lemma delete_all_authenticated:
  "is_authenticated req \<Longrightarrow>
     delete_all cfg fw req db = (Inl (AttributeError ''delete_all''), db)"
  by (simp add: delete_all_def login_required_def field_recipient call_method_def no_delete_all)

text \<open>
  C8, at the input where the code departs from it: for the authenticated user 5, who has
  three stored notifications, \<open>delete_all\<close> raises \<open>AttributeError\<close> for the name
  \<^verbatim>\<open>delete_all\<close> under either setting of soft-delete mode, and the table is as it was:
  no row is deleted or marked deleted, and there is no redirect.
\<close>

theorem delete_all_raises:
  "delete_all soft_cfg example_framework (example_request 5) example_db
       = (Inl (AttributeError ''delete_all''), example_db)
   \<and> delete_all hard_cfg example_framework (example_request 5) example_db
       = (Inl (AttributeError ''delete_all''), example_db)"
  by (simp add: delete_all_authenticated is_authenticated_def example_request_def)

subsection \<open>The handler\<close>

text \<open>When the loop over the recipients ends without an exception, it has collected one
  instance for each recipient.\<close>

lemma create_all_length:
  "create_all cfg py ev recipients kw new_notifications db = (Inr created, db')
     \<Longrightarrow> length created = length new_notifications + length recipients"
proof (induction recipients arbitrary: kw new_notifications db)
  case Nil
  then show ?case by simp
next
  case (Cons recipient_id rest)
  from Cons.prems obtain newnotify kw' where
    built: "build cfg py ev recipient_id kw = Inr (newnotify, kw')"
    by (auto split: sum.splits)
  obtain saved db1 where saved: "save newnotify db = (saved, db1)"
    by (cases "save newnotify db")
  from Cons.prems built saved
  have "create_all cfg py ev rest kw' (new_notifications @ [saved]) db1 = (Inr created, db')"
    by simp
  from Cons.IH [OF this] show ?case by simp
qed

text \<open>
  C1, at the input where the code departs from it: a notify call with the two recipients
  5 and 6, a target that is an instance of a proxy model (own content type 8, concrete
  content type 7) and \<^verbatim>\<open>target_for_concrete_model=False\<close>. The handler returns two rows
  and stores them, but their target references differ: the first row has content type 8,
  the second content type 7, because the flag was popped while the first row was built.
\<close>

theorem notify_handler_target_differs:
  "\<exists>r1 r2 db'.
     notify_handler cfg py ''commented'' example_kwargs empty_db = (Inr [r1, r2], db')
     \<and> table db' = [r1, r2]
     \<and> recipient r1 = 5 \<and> recipient r2 = 6
     \<and> target_object_id r1 = Some 9 \<and> target_object_id r2 = Some 9
     \<and> target_content_type r1 = Some 8 \<and> target_content_type r2 = Some 7"
  by (simp add: notify_handler_def example_kwargs_def empty_db_def pop_def pop_required_def
      example_user_def example_proxy_def build_def set_optional_def set_extra_def save_def
      Let_def)

end
